theory Spec2Isabelle
  imports
    Main
    "HOL-Library.Char_ord"
    "HOL-Library.List_Lexorder"
    "HOL-Library.Product_Lexorder"
begin

section \<open>Data model of streamlit\_app.py\<close>

text \<open>
  Python strings are modelled as \<^typ>\<open>string\<close>, one \<^typ>\<open>char\<close> per code point
  below 256. With \<open>Char_ord\<close>, \<open>List_Lexorder\<close> and \<open>Product_Lexorder\<close> the order
  \<open>\<le>\<close> on strings and on tuples of strings is the lexicographic order by code point
  that Python's \<open>sorted\<close> uses on \<open>str\<close> and on tuples.
\<close>

text \<open>An exception caught by \<open>except Exception as e\<close>; \<open>message\<close> is \<open>str(e)\<close>.\<close>

datatype exn = Exception (message: string)

text \<open>
  What \<open>argostranslate.translate.get_installed_languages()\<close> hands back, reduced to the
  attributes that \<open>refresh_installed_packages\<close> reads: \<open>lang.code\<close>, \<open>lang.name\<close>,
  \<open>lang.translations_from\<close>, and of each translation \<open>translation.to_lang.code\<close> and
  \<open>translation.to_lang.name\<close>. The two reads that reach into the library's objects,
  \<open>lang.translations_from\<close> and \<open>translation.to_lang\<close>, may raise: \<open>Inl e\<close> is the
  exception raised by the read, \<open>Inr v\<close> the value read.
\<close>

datatype target_language = Target_Language (tl_code: string) (tl_name: string)

datatype translation = Translation (to_lang: "exn + target_language")

datatype language =
  Language (code: string) (name: string) (translations_from: "exn + translation list")

text \<open>The dict \<open>package_info\<close> built at lines 138-143.\<close>

record package_info =
  from_code :: string
  from_name :: string
  to_code :: string
  to_name :: string

text \<open>The dict \<open>translation_record\<close> built at lines 357-363.\<close>

record translation_record =
  timestamp :: string
  from_lang :: string
  to_lang_name :: string
  original :: string
  translated :: string

text \<open>What \<open>st.error\<close>, \<open>st.warning\<close> and \<open>st.info\<close> put on the page.\<close>

datatype ui_message = Error string | Warning string | Info string

text \<open>
  The state the functions act on: the two \<open>st.session_state\<close> entries they write
  (\<open>installed_packages\<close>, \<open>translation_history\<close>), the messages rendered so far, in
  order, and the arguments of every call of \<open>argostranslate.translate.translate\<close>
  made so far, in order.
\<close>

record app_state =
  installed_packages :: "package_info list"
  translation_history :: "translation_record list"
  messages :: "ui_message list"
  translate_calls :: "(string \<times> string \<times> string) list"

text \<open>Lines 57-63: the three session entries start empty.\<close>

definition initial_state :: app_state where
  "initial_state = \<lparr>installed_packages = [], translation_history = [], messages = [], translate_calls = []\<rparr>"

definition st_error :: "string \<Rightarrow> app_state \<Rightarrow> app_state" where
  "st_error msg s = s\<lparr>messages := messages s @ [Error msg]\<rparr>"

section \<open>refresh\_installed\_packages (lines 129-146)\<close>

text \<open>
  The inner loop, lines 137-144. The dict literal reads \<open>translation.to_lang\<close> before
  the \<open>append\<close>, so a raising read leaves the pairs appended so far and stops both
  loops. The first component of the result is the exception in flight, if any.
\<close>

fun append_translations ::
  "language \<Rightarrow> translation list \<Rightarrow> app_state \<Rightarrow> exn option \<times> app_state" where
  "append_translations lang [] s = (None, s)"
| "append_translations lang (t # ts) s =
     (case to_lang t of
        Inl e \<Rightarrow> (Some e, s)
      | Inr target \<Rightarrow>
          append_translations lang ts
            (s\<lparr>installed_packages := installed_packages s @
                [\<lparr>from_code = code lang, from_name = name lang,
                  to_code = tl_code target, to_name = tl_name target\<rparr>]\<rparr>))"

text \<open>The outer loop, lines 135-144.\<close>

fun append_languages :: "language list \<Rightarrow> app_state \<Rightarrow> exn option \<times> app_state" where
  "append_languages [] s = (None, s)"
| "append_languages (lang # langs) s =
     (case translations_from lang of
        Inl e \<Rightarrow> (Some e, s)
      | Inr translations \<Rightarrow>
          (case append_translations lang translations s of
             (Some e, s') \<Rightarrow> (Some e, s')
           | (None, s') \<Rightarrow> append_languages langs s'))"

text \<open>
  The body of the \<open>try\<close>, lines 132-144. The argument is the outcome of
  \<open>get_installed_languages()\<close>. The list is reset at line 133, after that call has
  returned and before the loops run.
\<close>

definition refresh_body :: "exn + language list \<Rightarrow> app_state \<Rightarrow> exn option \<times> app_state" where
  "refresh_body lib s =
     (case lib of
        Inl e \<Rightarrow> (Some e, s)
      | Inr installed_languages \<Rightarrow>
          append_languages installed_languages (s\<lparr>installed_packages := []\<rparr>))"

text \<open>
  The whole function: \<open>except Exception as e\<close> turns the exception into one
  \<open>st.error\<close> and the function returns normally with the state the body left.
\<close>

definition refresh_installed_packages :: "exn + language list \<Rightarrow> app_state \<Rightarrow> app_state" where
  "refresh_installed_packages lib s =
     (case refresh_body lib s of
        (None, s') \<Rightarrow> s'
      | (Some e, s') \<Rightarrow> st_error (''Error refreshing installed packages: '' @ message e) s')"

section \<open>translate\_text (lines 179-186)\<close>

text \<open>
  \<open>lib\<close> is \<open>argostranslate.translate.translate\<close>: \<open>Inl e\<close> when the call raises,
  \<open>Inr t\<close> when it returns \<open>t\<close>. The call is logged in \<open>translate_calls\<close> with the
  arguments it receives. The result is the returned string and the new state.
\<close>

definition translate_text ::
  "(string \<Rightarrow> string \<Rightarrow> string \<Rightarrow> exn + string) \<Rightarrow> string \<Rightarrow> string \<Rightarrow> string
     \<Rightarrow> app_state \<Rightarrow> string \<times> app_state" where
  "translate_text lib text fc tc s =
     (let s1 = s\<lparr>translate_calls := translate_calls s @ [(text, fc, tc)]\<rparr> in
      case lib text fc tc of
        Inr translated_text \<Rightarrow> (translated_text, s1)
      | Inl e \<Rightarrow> ('''', st_error (''Translation error: '' @ message e) s1))"

section \<open>get\_available\_language\_pairs (lines 188-192)\<close>

definition pair_of :: "package_info \<Rightarrow> string \<times> string \<times> string \<times> string" where
  "pair_of pkg = (from_code pkg, from_name pkg, to_code pkg, to_name pkg)"

definition get_available_language_pairs ::
  "exn + language list \<Rightarrow> app_state \<Rightarrow> (string \<times> string \<times> string \<times> string) list \<times> app_state" where
  "get_available_language_pairs lib s =
     (let s' = refresh_installed_packages lib s in
      (map pair_of (installed_packages s'), s'))"

section \<open>The translation interface of main (lines 277-373)\<close>

text \<open>Line 293: \<open>sorted(list(set([(pair[0], pair[1]) for pair in available_pairs])))\<close>.\<close>

definition from_languages ::
  "(string \<times> string \<times> string \<times> string) list \<Rightarrow> (string \<times> string) list" where
  "from_languages available_pairs =
     sort (remdups (map (\<lambda>(p0, p1, p2, p3). (p0, p1)) available_pairs))"

text \<open>Lines 294 and 308: \<open>f"{lang[1]} ({lang[0]})"\<close>.\<close>

definition lang_option :: "string \<times> string \<Rightarrow> string" where
  "lang_option lang = snd lang @ '' ('' @ fst lang @ '')''"

definition from_options :: "(string \<times> string \<times> string \<times> string) list \<Rightarrow> string list" where
  "from_options available_pairs = map lang_option (from_languages available_pairs)"

text \<open>
  Line 307:
  \<open>sorted([(pair[2], pair[3]) for pair in available_pairs if pair[0] == selected_from_code])\<close>.
\<close>

definition to_languages ::
  "(string \<times> string \<times> string \<times> string) list \<Rightarrow> string \<Rightarrow> (string \<times> string) list" where
  "to_languages available_pairs selected_from_code =
     sort (map (\<lambda>(p0, p1, p2, p3). (p2, p3))
             (filter (\<lambda>(p0, p1, p2, p3). p0 = selected_from_code) available_pairs))"

definition to_options ::
  "(string \<times> string \<times> string \<times> string) list \<Rightarrow> string \<Rightarrow> string list" where
  "to_options available_pairs selected_from_code =
     map lang_option (to_languages available_pairs selected_from_code)"

text \<open>
  Lines 304-320, the target column. \<open>selected_to_idx\<close> is what \<open>st.selectbox\<close> returns,
  one of \<open>range(len(to_options))\<close>; for an index past the end the subscript of line 317
  raises \<open>IndexError\<close>, which nothing in main catches. The result is
  \<open>Inr (Some selected_to_code, s)\<close> when main goes on, \<open>Inr (None, s')\<close> when main shows
  the error of line 319 and returns at line 320, and \<open>Inl e\<close> when \<open>e\<close> is raised.
\<close>

definition target_selection ::
  "(string \<times> string \<times> string \<times> string) list \<Rightarrow> string \<Rightarrow> nat \<Rightarrow> app_state
     \<Rightarrow> exn + (string option \<times> app_state)" where
  "target_selection available_pairs selected_from_code selected_to_idx s =
     (if to_options available_pairs selected_from_code \<noteq> [] then
        if selected_to_idx < length (to_languages available_pairs selected_from_code)
        then Inr (Some (fst (to_languages available_pairs selected_from_code ! selected_to_idx)), s)
        else Inl (Exception ''list index out of range'')
      else
        Inr (None,
             st_error ''No target languages available for the selected source language.'' s))"

text \<open>
  \<open>str.strip()\<close> with no argument removes leading and trailing whitespace. On code
  points below 256 Python's whitespace is \<open>\t \n \v \f \r\<close>, \<open>0x1c\<close> to \<open>0x1f\<close>, the
  space, \<open>0x85\<close> and \<open>0xa0\<close>.
\<close>

definition isspace :: "char \<Rightarrow> bool" where
  "isspace c \<longleftrightarrow> (of_char c :: nat) \<in> {9, 10, 11, 12, 13, 28, 29, 30, 31, 32, 133, 160}"

definition strip :: "string \<Rightarrow> string" where
  "strip s = rev (dropWhile isspace (rev (dropWhile isspace s)))"

text \<open>
  Lines 356-367: \<open>insert(0, translation_record)\<close>, then the slice \<open>[:10]\<close>.
\<close>

definition add_to_history :: "translation_record \<Rightarrow> app_state \<Rightarrow> app_state" where
  "add_to_history r s = s\<lparr>translation_history := take 10 (r # translation_history s)\<rparr>"

text \<open>
  Lines 346-373. \<open>from_lang_name\<close> is \<open>from_languages[selected_from_idx][1]\<close>,
  \<open>to_lang_name'\<close> is \<open>to_languages[selected_to_idx][1]\<close> and \<open>now\<close> is what
  \<open>time.strftime\<close> returns. A string is true in Python when it is not empty.
\<close>

definition perform_translation ::
  "(string \<Rightarrow> string \<Rightarrow> string \<Rightarrow> exn + string) \<Rightarrow> bool \<Rightarrow> string \<Rightarrow> string \<Rightarrow> string
     \<Rightarrow> string \<Rightarrow> string \<Rightarrow> string \<Rightarrow> app_state \<Rightarrow> app_state" where
  "perform_translation lib translate_button input_text selected_from_code selected_to_code
       from_lang_name to_lang_name' now s =
     (if translate_button \<and> strip input_text \<noteq> [] then
        (case translate_text lib input_text selected_from_code selected_to_code s of
           (translated_text, s1) \<Rightarrow>
             if translated_text \<noteq> [] then
               add_to_history
                 \<lparr>timestamp = now, from_lang = from_lang_name, to_lang_name = to_lang_name',
                   original = input_text, translated = translated_text\<rparr> s1
             else s1)
      else if translate_button \<and> \<not> (strip input_text \<noteq> []) then
        st_error ''Please enter some text to translate.'' s
      else s)"

section \<open>The library's report as a list of edges\<close>

text \<open>
  The translation edges of a report, flattened in the report's order: for each language
  the targets of its translations, as \<open>(from_code, from_name, to_code, to_name)\<close>. A read
  that raises contributes no edge. \<open>raises_nothing\<close> holds when every read of the report
  succeeds.
\<close>

definition readable_targets :: "translation list \<Rightarrow> target_language list" where
  "readable_targets ts = concat (map (\<lambda>t. case to_lang t of Inl e \<Rightarrow> [] | Inr target \<Rightarrow> [target]) ts)"

definition targets :: "language \<Rightarrow> target_language list" where
  "targets lang = (case translations_from lang of Inl e \<Rightarrow> [] | Inr ts \<Rightarrow> readable_targets ts)"

definition edges :: "language list \<Rightarrow> (string \<times> string \<times> string \<times> string) list" where
  "edges langs =
     concat (map (\<lambda>l. map (\<lambda>t. (code l, name l, tl_code t, tl_name t)) (targets l)) langs)"

definition raises_nothing :: "language list \<Rightarrow> bool" where
  "raises_nothing langs =
     list_all (\<lambda>l. case translations_from l of
                      Inl e \<Rightarrow> False
                    | Inr ts \<Rightarrow> list_all (\<lambda>t. \<not> isl (to_lang t)) ts) langs"

text \<open>
  What an interrupted refresh leaves behind, read off the report alone.
  \<open>edges_before_raise\<close> is the flattened edges up to the first read that raises: the
  edges of the languages before it and, when the failing read is a \<open>to_lang\<close>, the
  edges of the translations before it in the same language; nothing after it.
  \<open>raised\<close> is the exception of that first failing read, or of the call
  \<open>get_installed_languages()\<close> itself, and \<open>None\<close> when nothing raises. \<open>package_of\<close>
  is the dict with the four entries of a tuple.
\<close>

definition package_of :: "string \<times> string \<times> string \<times> string \<Rightarrow> package_info" where
  "package_of p =
     (case p of (p0, p1, p2, p3) \<Rightarrow>
        \<lparr>from_code = p0, from_name = p1, to_code = p2, to_name = p3\<rparr>)"

definition targets_before_raise :: "translation list \<Rightarrow> target_language list" where
  "targets_before_raise ts = readable_targets (takeWhile (\<lambda>t. \<not> isl (to_lang t)) ts)"

fun edges_before_raise :: "language list \<Rightarrow> (string \<times> string \<times> string \<times> string) list" where
  "edges_before_raise [] = []"
| "edges_before_raise (l # ls) =
     (case translations_from l of
        Inl e \<Rightarrow> []
      | Inr ts \<Rightarrow>
          map (\<lambda>t. (code l, name l, tl_code t, tl_name t)) (targets_before_raise ts)
          @ (if list_all (\<lambda>t. \<not> isl (to_lang t)) ts then edges_before_raise ls else []))"

definition raised_by_reads :: "translation list \<Rightarrow> exn option" where
  "raised_by_reads ts =
     (case find (\<lambda>t. isl (to_lang t)) ts of
        None \<Rightarrow> None
      | Some t \<Rightarrow> Some (projl (to_lang t)))"

fun first_raise :: "language list \<Rightarrow> exn option" where
  "first_raise [] = None"
| "first_raise (l # ls) =
     (case translations_from l of
        Inl e \<Rightarrow> Some e
      | Inr ts \<Rightarrow>
          (case raised_by_reads ts of
             Some e \<Rightarrow> Some e
           | None \<Rightarrow> first_raise ls))"

definition raised :: "exn + language list \<Rightarrow> exn option" where
  "raised lib = (case lib of Inl e \<Rightarrow> Some e | Inr langs \<Rightarrow> first_raise langs)"

section \<open>Example inputs\<close>

text \<open>
  A history record with a given timestamp, a library whose translate call always
  raises, one whose translate call always returns the empty string, and one whose
  translate call returns the text it is given.
\<close>

definition example_record :: "string \<Rightarrow> translation_record" where
  "example_record t = \<lparr>timestamp = t, from_lang = ''English'', to_lang_name = ''Spanish'',
                       original = ''Hello'', translated = ''Hola''\<rparr>"

definition failing_library :: "string \<Rightarrow> string \<Rightarrow> string \<Rightarrow> exn + string" where
  "failing_library text fc tc = Inl (Exception ''no model'')"

definition empty_library :: "string \<Rightarrow> string \<Rightarrow> string \<Rightarrow> exn + string" where
  "empty_library text fc tc = Inr []"

definition echo_library :: "string \<Rightarrow> string \<Rightarrow> string \<Rightarrow> exn + string" where
  "echo_library text fc tc = Inr text"

section \<open>Properties\<close>

lemma strip_Nil_iff: "strip s = [] \<longleftrightarrow> (\<forall>c\<in>set s. isspace c)"
proof
  assume "strip s = []"
  then have a: "dropWhile isspace (rev (dropWhile isspace s)) = []"
    by (simp add: strip_def)
  show "\<forall>c\<in>set s. isspace c"
  proof (cases "dropWhile isspace s = []")
    case True
    then show ?thesis by (simp only: dropWhile_eq_Nil_conv)
  next
    case False
    then have "\<not> isspace (hd (dropWhile isspace s))" by (rule hd_dropWhile)
    moreover have "hd (dropWhile isspace s) \<in> set (rev (dropWhile isspace s))"
      using False by simp
    moreover from a have "\<forall>x\<in>set (rev (dropWhile isspace s)). isspace x"
      by (simp only: dropWhile_eq_Nil_conv)
    ultimately show ?thesis by blast
  qed
next
  assume "\<forall>c\<in>set s. isspace c"
  then have "dropWhile isspace s = []" by (simp only: dropWhile_eq_Nil_conv)
  then have "strip s = rev (dropWhile isspace (rev []))" by (simp only: strip_def)
  then show "strip s = []" by simp
qed

lemma ex2_intro: "P a b \<Longrightarrow> \<exists>x y. P x y"
  by (rule exI [of _ a], rule exI [of _ b])

lemma append_translations_frame:
  "\<exists>ps rest. snd (append_translations lang ts s) = s\<lparr>installed_packages := installed_packages s @ ps\<rparr>
     \<and> map (\<lambda>t. (code lang, name lang, tl_code t, tl_name t)) (readable_targets ts) = map pair_of ps @ rest
     \<and> (fst (append_translations lang ts s) = None \<longrightarrow> rest = [])"
proof (induction ts arbitrary: s)
  case Nil
  show ?case by (rule ex2_intro [of _ "[]" "[]"]) (simp add: readable_targets_def)
next
  case (Cons t ts)
  let ?f = "\<lambda>t. (code lang, name lang, tl_code t, tl_name t)"
  show ?case
  proof (cases "to_lang t")
    case (Inl e)
    then show ?thesis
      by (intro ex2_intro [of _ "[]" "map ?f (readable_targets (t # ts))"]) simp
  next
    case (Inr target)
    let ?p = "\<lparr>from_code = code lang, from_name = name lang,
                to_code = tl_code target, to_name = tl_name target\<rparr>"
    let ?s1 = "s\<lparr>installed_packages := installed_packages s @ [?p]\<rparr>"
    from Cons.IH [of ?s1] obtain ps where "\<exists>rest.
        snd (append_translations lang ts ?s1) = ?s1\<lparr>installed_packages := installed_packages ?s1 @ ps\<rparr>
        \<and> map ?f (readable_targets ts) = map pair_of ps @ rest
        \<and> (fst (append_translations lang ts ?s1) = None \<longrightarrow> rest = [])" ..
    then obtain rest where abc:
      "snd (append_translations lang ts ?s1) = ?s1\<lparr>installed_packages := installed_packages ?s1 @ ps\<rparr>
        \<and> map ?f (readable_targets ts) = map pair_of ps @ rest
        \<and> (fst (append_translations lang ts ?s1) = None \<longrightarrow> rest = [])" ..
    note a = abc [THEN conjunct1]
    note b = abc [THEN conjunct2, THEN conjunct1]
    note c = abc [THEN conjunct2, THEN conjunct2]
    have a': "snd (append_translations lang (t # ts) s) = s\<lparr>installed_packages := installed_packages s @ (?p # ps)\<rparr>"
      using a Inr by simp
    have b': "map ?f (readable_targets (t # ts)) = map pair_of (?p # ps) @ rest"
      using b Inr by (simp add: readable_targets_def pair_of_def)
    have c': "fst (append_translations lang (t # ts) s) = None \<longrightarrow> rest = []"
      using c Inr by simp
    from a' b' c' show ?thesis
      by (intro ex2_intro [of _ "?p # ps" rest] conjI)
  qed
qed

lemma append_languages_frame:
  "\<exists>ps rest. snd (append_languages langs s) = s\<lparr>installed_packages := installed_packages s @ ps\<rparr>
     \<and> edges langs = map pair_of ps @ rest
     \<and> (fst (append_languages langs s) = None \<longrightarrow> rest = [])"
proof (induction langs arbitrary: s)
  case Nil
  show ?case by (rule ex2_intro [of _ "[]" "[]"]) (simp add: edges_def)
next
  case (Cons lang langs)
  let ?f = "\<lambda>t. (code lang, name lang, tl_code t, tl_name t)"
  show ?case
  proof (cases "translations_from lang")
    case (Inl e)
    then show ?thesis
      by (intro ex2_intro [of _ "[]" "edges (lang # langs)"]) simp
  next
    case (Inr ts)
    from append_translations_frame [of lang ts s] obtain ps1 where "\<exists>rest.
        snd (append_translations lang ts s) = s\<lparr>installed_packages := installed_packages s @ ps1\<rparr>
        \<and> map ?f (readable_targets ts) = map pair_of ps1 @ rest
        \<and> (fst (append_translations lang ts s) = None \<longrightarrow> rest = [])" ..
    then obtain rest1 where abc1:
      "snd (append_translations lang ts s) = s\<lparr>installed_packages := installed_packages s @ ps1\<rparr>
        \<and> map ?f (readable_targets ts) = map pair_of ps1 @ rest1
        \<and> (fst (append_translations lang ts s) = None \<longrightarrow> rest1 = [])" ..
    note a1 = abc1 [THEN conjunct1]
    note b1 = abc1 [THEN conjunct2, THEN conjunct1]
    note c1 = abc1 [THEN conjunct2, THEN conjunct2]
    have e: "edges (lang # langs) = map pair_of ps1 @ rest1 @ edges langs"
      using b1 Inr by (simp add: edges_def targets_def)
    show ?thesis
    proof (cases "append_translations lang ts s")
      case (Pair r s1)
      with a1 have s1: "s1 = s\<lparr>installed_packages := installed_packages s @ ps1\<rparr>" by simp
      show ?thesis
      proof (cases r)
        case (Some ex)
        with Pair Inr have r: "append_languages (lang # langs) s = (Some ex, s1)" by simp
        have "snd (append_languages (lang # langs) s) = s\<lparr>installed_packages := installed_packages s @ ps1\<rparr>"
          using r s1 by simp
        moreover have "fst (append_languages (lang # langs) s) = None \<longrightarrow> rest1 @ edges langs = []"
          using r by simp
        ultimately show ?thesis using e
          by (intro ex2_intro [of _ ps1 "rest1 @ edges langs"] conjI)
      next
        case None
        with Pair Inr have r: "append_languages (lang # langs) s = append_languages langs s1" by simp
        from None Pair c1 have r1: "rest1 = []" by simp
        from Cons.IH [of s1] obtain ps where "\<exists>rest.
            snd (append_languages langs s1) = s1\<lparr>installed_packages := installed_packages s1 @ ps\<rparr>
            \<and> edges langs = map pair_of ps @ rest
            \<and> (fst (append_languages langs s1) = None \<longrightarrow> rest = [])" ..
        then obtain rest where abc:
          "snd (append_languages langs s1) = s1\<lparr>installed_packages := installed_packages s1 @ ps\<rparr>
            \<and> edges langs = map pair_of ps @ rest
            \<and> (fst (append_languages langs s1) = None \<longrightarrow> rest = [])" ..
        note a = abc [THEN conjunct1]
        note b = abc [THEN conjunct2, THEN conjunct1]
        note c = abc [THEN conjunct2, THEN conjunct2]
        have a': "snd (append_languages (lang # langs) s) = s\<lparr>installed_packages := installed_packages s @ (ps1 @ ps)\<rparr>"
          using r a s1 by simp
        have b': "edges (lang # langs) = map pair_of (ps1 @ ps) @ rest"
          using e r1 b by simp
        have c': "fst (append_languages (lang # langs) s) = None \<longrightarrow> rest = []"
          using r c by simp
        from a' b' c' show ?thesis
          by (intro ex2_intro [of _ "ps1 @ ps" rest] conjI)
      qed
    qed
  qed
qed

lemma append_translations_None:
  "list_all (\<lambda>t. \<not> isl (to_lang t)) ts \<Longrightarrow> fst (append_translations lang ts s) = None"
  by (induction ts arbitrary: s) (auto split: sum.splits)

lemma append_languages_None:
  "raises_nothing langs \<Longrightarrow> fst (append_languages langs s) = None"
proof (induction langs arbitrary: s)
  case Nil
  show ?case by simp
next
  case (Cons lang langs)
  from Cons.prems obtain ts where
    ts: "translations_from lang = Inr ts" and ok: "list_all (\<lambda>t. \<not> isl (to_lang t)) ts"
    and rest: "raises_nothing langs"
    by (auto simp: raises_nothing_def split: sum.splits)
  obtain s1 where s1: "append_translations lang ts s = (None, s1)"
    using append_translations_None [OF ok, of lang s]
    by (cases "append_translations lang ts s") simp
  have "append_languages (lang # langs) s = append_languages langs s1"
    using ts s1 by simp
  with Cons.IH [OF rest] show ?case by simp
qed

lemma take_append_take: "take n (xs @ take n ys) = take n (xs @ ys)"
  by (simp add: min_def)

lemma history_fold:
  "translation_history (fold add_to_history rs (add_to_history r s))
     = take 10 (rev rs @ r # translation_history s)"
proof (induction rs arbitrary: r s)
  case Nil
  show ?case by (simp add: add_to_history_def)
next
  case (Cons r' rs)
  have h: "translation_history (add_to_history r s) = take 10 (r # translation_history s)"
    by (simp add: add_to_history_def)
  have "translation_history (fold add_to_history (r' # rs) (add_to_history r s))
      = take 10 ((rev rs @ [r']) @ take 10 (r # translation_history s))"
    using Cons.IH [of r' "add_to_history r s"] h by simp
  also have "\<dots> = take 10 ((rev rs @ [r']) @ r # translation_history s)"
    by (rule take_append_take)
  finally show ?case by simp
qed


lemma refresh_body_Inr:
  "\<exists>ps rest. snd (refresh_body (Inr langs) s) = s\<lparr>installed_packages := ps\<rparr>
     \<and> edges langs = map pair_of ps @ rest
     \<and> (fst (refresh_body (Inr langs) s) = None \<longrightarrow> rest = [])"
  using append_languages_frame [of langs "s\<lparr>installed_packages := []\<rparr>"]
  by (simp add: refresh_body_def)

lemma refresh_returned:
  "fst (refresh_body lib s) = None \<Longrightarrow> refresh_installed_packages lib s = snd (refresh_body lib s)"
  by (cases "refresh_body lib s") (simp add: refresh_installed_packages_def)

lemma refresh_no_raise:
  assumes "raises_nothing langs"
  shows "map pair_of (installed_packages (refresh_installed_packages (Inr langs) s)) = edges langs"
proof -
  have n: "fst (refresh_body (Inr langs) s) = None"
    using append_languages_None [OF assms] by (simp add: refresh_body_def)
  from refresh_body_Inr [of langs s] obtain ps where "\<exists>rest.
      snd (refresh_body (Inr langs) s) = s\<lparr>installed_packages := ps\<rparr>
      \<and> edges langs = map pair_of ps @ rest
      \<and> (fst (refresh_body (Inr langs) s) = None \<longrightarrow> rest = [])" ..
  then obtain rest where abc:
    "snd (refresh_body (Inr langs) s) = s\<lparr>installed_packages := ps\<rparr>
      \<and> edges langs = map pair_of ps @ rest
      \<and> (fst (refresh_body (Inr langs) s) = None \<longrightarrow> rest = [])" ..
  from abc n have "rest = []" by simp
  with abc have "edges langs = map pair_of ps" by simp
  moreover from abc n have "refresh_installed_packages (Inr langs) s = s\<lparr>installed_packages := ps\<rparr>"
    by (simp add: refresh_returned)
  ultimately show ?thesis by simp
qed

lemma set_edges:
  "set (edges langs)
     = {(code l, name l, tl_code t, tl_name t) | l t. l \<in> set langs \<and> t \<in> set (targets l)}"
  by (auto simp: edges_def)

lemma edges_Cons:
  "edges (l # ls) = map (\<lambda>t. (code l, name l, tl_code t, tl_name t)) (targets l) @ edges ls"
  by (simp add: edges_def)

lemma edge_key_source:
  "k \<in> set (map (\<lambda>(p0, p1, p2, p3). (p0, p2)) (edges ls)) \<Longrightarrow> fst k \<in> code ` set ls"
  by (auto simp: edges_def)

lemma distinct_edge_keys:
  "distinct (map code langs) \<Longrightarrow> (\<forall>l\<in>set langs. distinct (map tl_code (targets l)))
     \<Longrightarrow> distinct (map (\<lambda>(p0, p1, p2, p3). (p0, p2)) (edges langs))"
proof (induction langs)
  case Nil
  show ?case by (simp add: edges_def)
next
  case (Cons l ls)
  have m: "map (\<lambda>(p0, p1, p2, p3). (p0, p2)) (edges (l # ls))
      = map (Pair (code l)) (map tl_code (targets l)) @ map (\<lambda>(p0, p1, p2, p3). (p0, p2)) (edges ls)"
    by (simp add: edges_Cons)
  have d1: "distinct (map (Pair (code l)) (map tl_code (targets l)))"
    using Cons.prems(2) by (simp add: distinct_map inj_on_def)
  have d2: "distinct (map (\<lambda>(p0, p1, p2, p3). (p0, p2)) (edges ls))"
    using Cons.IH Cons.prems by simp
  have d3: "set (map (Pair (code l)) (map tl_code (targets l)))
      \<inter> set (map (\<lambda>(p0, p1, p2, p3). (p0, p2)) (edges ls)) = {}"
  proof -
    have "k \<notin> set (map (\<lambda>(p0, p1, p2, p3). (p0, p2)) (edges ls))"
      if k1: "k \<in> set (map (Pair (code l)) (map tl_code (targets l)))" for k
    proof
      assume k2: "k \<in> set (map (\<lambda>(p0, p1, p2, p3). (p0, p2)) (edges ls))"
      from k1 have "fst k = code l" by auto
      moreover from k2 have "fst k \<in> code ` set ls" by (rule edge_key_source)
      ultimately show False using Cons.prems(1) by simp
    qed
    then show ?thesis by blast
  qed
  from d1 d2 d3 show ?case by (simp only: m distinct_append)
qed

lemma translate_text_calls:
  "translate_calls (snd (translate_text lib text fc tc s)) = translate_calls s @ [(text, fc, tc)]"
  by (simp add: translate_text_def st_error_def Let_def split: sum.splits)

lemma translate_text_history:
  "translation_history (snd (translate_text lib text fc tc s)) = translation_history s"
  by (simp add: translate_text_def st_error_def Let_def split: sum.splits)

text \<open>
  A successful translation step is one record operation: with a non-blank input and a
  non-empty result, lines 346-367 log the call and add the record to the history.
\<close>

lemma perform_translation_records:
  assumes "strip input_text \<noteq> []" and "lib input_text fc tc = Inr out" and "out \<noteq> []"
  shows "perform_translation lib True input_text fc tc fn tn now s
     = add_to_history \<lparr>timestamp = now, from_lang = fn, to_lang_name = tn,
                        original = input_text, translated = out\<rparr>
         (s\<lparr>translate_calls := translate_calls s @ [(input_text, fc, tc)]\<rparr>)"
  using assms by (simp add: perform_translation_def translate_text_def Let_def)

lemma raised_by_reads_None:
  "(raised_by_reads ts = None) = list_all (\<lambda>t. \<not> isl (to_lang t)) ts"
  by (induction ts) (simp_all add: raised_by_reads_def)

lemma append_translations_exact:
  "append_translations lang ts s
     = (raised_by_reads ts,
        s\<lparr>installed_packages := installed_packages s @
            map (\<lambda>t. \<lparr>from_code = code lang, from_name = name lang,
                       to_code = tl_code t, to_name = tl_name t\<rparr>) (targets_before_raise ts)\<rparr>)"
proof (induction ts arbitrary: s)
  case Nil
  show ?case by (simp add: raised_by_reads_def targets_before_raise_def readable_targets_def)
next
  case (Cons t ts)
  show ?case
  proof (cases "to_lang t")
    case (Inl e)
    then show ?thesis
      by (simp add: raised_by_reads_def targets_before_raise_def readable_targets_def)
  next
    case (Inr target)
    then show ?thesis
      using Cons.IH
      by (simp add: raised_by_reads_def targets_before_raise_def readable_targets_def)
  qed
qed

lemma append_languages_exact:
  "append_languages langs s
     = (first_raise langs,
        s\<lparr>installed_packages := installed_packages s @ map package_of (edges_before_raise langs)\<rparr>)"
proof (induction langs arbitrary: s)
  case Nil
  show ?case by simp
next
  case (Cons l ls)
  show ?case
  proof (cases "translations_from l")
    case (Inl e)
    then show ?thesis by simp
  next
    case (Inr ts)
    have m: "map package_of (map (\<lambda>t. (code l, name l, tl_code t, tl_name t)) (targets_before_raise ts))
        = map (\<lambda>t. \<lparr>from_code = code l, from_name = name l,
                      to_code = tl_code t, to_name = tl_name t\<rparr>) (targets_before_raise ts)"
      by (simp add: package_of_def)
    show ?thesis
    proof (cases "raised_by_reads ts")
      case None
      then have ok: "list_all (\<lambda>t. \<not> isl (to_lang t)) ts"
        by (simp only: raised_by_reads_None)
      from Inr None ok m show ?thesis
        by (simp add: append_translations_exact Cons.IH)
    next
      case (Some e)
      then have "raised_by_reads ts \<noteq> None" by simp
      then have bad: "\<not> list_all (\<lambda>t. \<not> isl (to_lang t)) ts"
        by (simp add: raised_by_reads_None [of ts, symmetric])
      from Inr Some bad m show ?thesis
        by (simp add: append_translations_exact)
    qed
  qed
qed

lemma refresh_body_exact:
  "refresh_body lib s
     = (raised lib,
        case lib of
          Inl e \<Rightarrow> s
        | Inr langs \<Rightarrow> s\<lparr>installed_packages := map package_of (edges_before_raise langs)\<rparr>)"
  by (cases lib) (simp_all add: refresh_body_def raised_def append_languages_exact)

subsection \<open>Errors during refresh\_installed\_packages\<close>

text \<open>
  C1 (as amended). Whenever \<open>get_installed_languages()\<close> or a read made while
  iterating raises, \<open>refresh_installed_packages\<close> returns normally and the state it
  leaves is fixed: exactly one more message,
  \<open>Error refreshing installed packages: \<close> followed by the exception's text; the
  translation history and the log of translate calls as before; and the installed
  list as before when the call \<open>get_installed_languages()\<close> raised, but, when a read
  raised during the iteration, exactly the pairs appended before the failing read
  (the list was reset at line 133), nothing of the previous list and nothing that
  follows the failing read in the report.
\<close>

theorem refresh_installed_packages_on_error:
  assumes "raised lib = Some e"
  shows "refresh_installed_packages lib s
     = (case lib of
          Inl e' \<Rightarrow>
            s\<lparr>messages := messages s @
                [Error (''Error refreshing installed packages: '' @ message e)]\<rparr>
        | Inr langs \<Rightarrow>
            s\<lparr>installed_packages := map package_of (edges_before_raise langs),
              messages := messages s @
                [Error (''Error refreshing installed packages: '' @ message e)]\<rparr>)"
  using assms
  by (cases lib)
     (simp_all add: refresh_installed_packages_def refresh_body_exact st_error_def)

theorem refresh_installed_packages_on_error_witness:
  "raised
     (Inr [Language ''en'' ''English''
             (Inr [Translation (Inr (Target_Language ''es'' ''Spanish'')),
                   Translation (Inl (Exception ''boom'')),
                   Translation (Inr (Target_Language ''fr'' ''French''))]),
           Language ''de'' ''German'' (Inr [Translation (Inr (Target_Language ''en'' ''English''))])])
     = Some (Exception ''boom'')
   \<and> refresh_installed_packages
        (Inr [Language ''en'' ''English''
                (Inr [Translation (Inr (Target_Language ''es'' ''Spanish'')),
                      Translation (Inl (Exception ''boom'')),
                      Translation (Inr (Target_Language ''fr'' ''French''))]),
              Language ''de'' ''German'' (Inr [Translation (Inr (Target_Language ''en'' ''English''))])])
        (initial_state\<lparr>installed_packages :=
           [\<lparr>from_code = ''de'', from_name = ''German'', to_code = ''en'', to_name = ''English''\<rparr>]\<rparr>)
     = \<lparr>installed_packages =
          [\<lparr>from_code = ''en'', from_name = ''English'', to_code = ''es'', to_name = ''Spanish''\<rparr>],
        translation_history = [],
        messages = [Error ''Error refreshing installed packages: boom''],
        translate_calls = []\<rparr>"
proof -
  let ?lib = "Inr [Language ''en'' ''English''
                (Inr [Translation (Inr (Target_Language ''es'' ''Spanish'')),
                      Translation (Inl (Exception ''boom'')),
                      Translation (Inr (Target_Language ''fr'' ''French''))]),
              Language ''de'' ''German'' (Inr [Translation (Inr (Target_Language ''en'' ''English''))])]"
  have h: "raised ?lib = Some (Exception ''boom'')"
    by (simp add: raised_def raised_by_reads_def)
  from refresh_installed_packages_on_error [OF h] h show ?thesis
    by (simp add: initial_state_def package_of_def targets_before_raise_def readable_targets_def)
qed

text \<open>
  The installed list is not left untouched when a read fails during the iteration: the
  stored pair German to English is gone after \<open>lang.translations_from\<close> has raised.
\<close>

theorem refresh_installed_packages_counterexample:
  "fst (refresh_body
        (Inr [Language ''en'' ''English'' (Inl (Exception ''boom''))])
        (initial_state\<lparr>installed_packages :=
           [\<lparr>from_code = ''de'', from_name = ''German'', to_code = ''en'', to_name = ''English''\<rparr>]\<rparr>))
     = Some (Exception ''boom'')
   \<and> installed_packages (refresh_installed_packages
        (Inr [Language ''en'' ''English'' (Inl (Exception ''boom''))])
        (initial_state\<lparr>installed_packages :=
           [\<lparr>from_code = ''de'', from_name = ''German'', to_code = ''en'', to_name = ''English''\<rparr>]\<rparr>))
     = []
   \<and> installed_packages (refresh_installed_packages
        (Inr [Language ''en'' ''English'' (Inl (Exception ''boom''))])
        (initial_state\<lparr>installed_packages :=
           [\<lparr>from_code = ''de'', from_name = ''German'', to_code = ''en'', to_name = ''English''\<rparr>]\<rparr>))
     \<noteq> installed_packages (initial_state\<lparr>installed_packages :=
           [\<lparr>from_code = ''de'', from_name = ''German'', to_code = ''en'', to_name = ''English''\<rparr>]\<rparr>)"
  by (simp add: refresh_installed_packages_def refresh_body_def st_error_def initial_state_def)

subsection \<open>Available pairs\<close>

text \<open>
  C5 (as amended). When the library's report raises nothing,
  \<open>get_available_language_pairs\<close> refreshes first and returns the report's edges
  flattened in the report's order, one tuple per reported translation: the tuples
  returned are exactly the edges of the report. The code does not remove duplicates:
  the result is free of duplicates, also with respect to the key
  \<open>(from_code, to_code)\<close>, when the report lists every language code once and every
  target code once per language.
\<close>

theorem available_pairs_flattened:
  assumes "raises_nothing langs"
  shows "snd (get_available_language_pairs (Inr langs) s) = refresh_installed_packages (Inr langs) s
       \<and> fst (get_available_language_pairs (Inr langs) s) = edges langs
       \<and> set (fst (get_available_language_pairs (Inr langs) s))
           = {(code l, name l, tl_code t, tl_name t) | l t. l \<in> set langs \<and> t \<in> set (targets l)}
       \<and> (distinct (map code langs) \<and> (\<forall>l\<in>set langs. distinct (map tl_code (targets l)))
            \<longrightarrow> distinct (map (\<lambda>(p0, p1, p2, p3). (p0, p2))
                           (fst (get_available_language_pairs (Inr langs) s)))
              \<and> distinct (fst (get_available_language_pairs (Inr langs) s)))"
proof -
  have e: "fst (get_available_language_pairs (Inr langs) s) = edges langs"
    using refresh_no_raise [OF assms, of s]
    by (simp add: get_available_language_pairs_def Let_def)
  have d: "distinct (map (\<lambda>(p0, p1, p2, p3). (p0, p2)) (edges langs)) \<and> distinct (edges langs)"
    if "distinct (map code langs)" and "\<forall>l\<in>set langs. distinct (map tl_code (targets l))"
  proof -
    from that have k: "distinct (map (\<lambda>(p0, p1, p2, p3). (p0, p2)) (edges langs))"
      by (rule distinct_edge_keys)
    then have "distinct (edges langs)" by (simp add: distinct_map)
    with k show ?thesis by simp
  qed
  have "snd (get_available_language_pairs (Inr langs) s) = refresh_installed_packages (Inr langs) s"
    by (simp add: get_available_language_pairs_def Let_def)
  with e d show ?thesis by (simp only: set_edges) blast
qed

theorem available_pairs_flattened_witness:
  "raises_nothing
     [Language ''en'' ''English''
        (Inr [Translation (Inr (Target_Language ''es'' ''Spanish'')),
              Translation (Inr (Target_Language ''fr'' ''French''))]),
      Language ''es'' ''Spanish'' (Inr [Translation (Inr (Target_Language ''en'' ''English''))])]
   \<and> fst (get_available_language_pairs
        (Inr [Language ''en'' ''English''
                (Inr [Translation (Inr (Target_Language ''es'' ''Spanish'')),
                      Translation (Inr (Target_Language ''fr'' ''French''))]),
              Language ''es'' ''Spanish'' (Inr [Translation (Inr (Target_Language ''en'' ''English''))])])
        initial_state)
     = [(''en'', ''English'', ''es'', ''Spanish''), (''en'', ''English'', ''fr'', ''French''),
        (''es'', ''Spanish'', ''en'', ''English'')]
   \<and> distinct (fst (get_available_language_pairs
        (Inr [Language ''en'' ''English''
                (Inr [Translation (Inr (Target_Language ''es'' ''Spanish'')),
                      Translation (Inr (Target_Language ''fr'' ''French''))]),
              Language ''es'' ''Spanish'' (Inr [Translation (Inr (Target_Language ''en'' ''English''))])])
        initial_state))"
proof -
  let ?langs = "[Language ''en'' ''English''
                (Inr [Translation (Inr (Target_Language ''es'' ''Spanish'')),
                      Translation (Inr (Target_Language ''fr'' ''French''))]),
              Language ''es'' ''Spanish'' (Inr [Translation (Inr (Target_Language ''en'' ''English''))])]"
  have h: "raises_nothing ?langs" by (simp add: raises_nothing_def)
  have d1: "distinct (map code ?langs)" by simp
  have d2: "\<forall>l\<in>set ?langs. distinct (map tl_code (targets l))"
    by (simp add: targets_def readable_targets_def)
  have e: "edges ?langs = [(''en'', ''English'', ''es'', ''Spanish''), (''en'', ''English'', ''fr'', ''French''),
        (''es'', ''Spanish'', ''en'', ''English'')]"
    by (simp add: edges_def targets_def readable_targets_def)
  from available_pairs_flattened [OF h, of initial_state] h d1 d2 e show ?thesis
    by simp
qed

text \<open>
  A report that lists the edge English to Spanish twice comes back with that tuple
  twice, although the set of edges has one element.
\<close>

theorem available_pairs_counterexample:
  "raises_nothing
     [Language ''en'' ''English''
        (Inr [Translation (Inr (Target_Language ''es'' ''Spanish'')),
              Translation (Inr (Target_Language ''es'' ''Spanish''))])]
   \<and> set (edges
        [Language ''en'' ''English''
           (Inr [Translation (Inr (Target_Language ''es'' ''Spanish'')),
                 Translation (Inr (Target_Language ''es'' ''Spanish''))])])
      = {(''en'', ''English'', ''es'', ''Spanish'')}
   \<and> fst (get_available_language_pairs
        (Inr [Language ''en'' ''English''
                (Inr [Translation (Inr (Target_Language ''es'' ''Spanish'')),
                      Translation (Inr (Target_Language ''es'' ''Spanish''))])])
        initial_state)
     = [(''en'', ''English'', ''es'', ''Spanish''), (''en'', ''English'', ''es'', ''Spanish'')]
   \<and> \<not> distinct (fst (get_available_language_pairs
        (Inr [Language ''en'' ''English''
                (Inr [Translation (Inr (Target_Language ''es'' ''Spanish'')),
                      Translation (Inr (Target_Language ''es'' ''Spanish''))])])
        initial_state))"
  by (simp add: get_available_language_pairs_def refresh_installed_packages_def refresh_body_def
        pair_of_def initial_state_def raises_nothing_def edges_def targets_def readable_targets_def)

subsection \<open>Blank input\<close>

text \<open>
  C2. For every \<open>from_code\<close> and \<open>to_code\<close>, pressing Translate on an input that is empty
  or consists of whitespace only ends in the error of line 373,
  \<open>Please enter some text to translate.\<close>, and changes nothing else; the library's
  translate function is not called, whatever the button state. The check is the guard
  \<open>input_text.strip()\<close> of lines 347 and 372, which stands in front of the only call of
  \<open>translate_text\<close>.
\<close>

theorem blank_input_rejected:
  assumes "\<forall>c\<in>set input_text. isspace c"
  shows "perform_translation lib True input_text fc tc fn tn now s
           = s\<lparr>messages := messages s @ [Error ''Please enter some text to translate.'']\<rparr>
       \<and> (\<forall>button. translate_calls (perform_translation lib button input_text fc tc fn tn now s)
             = translate_calls s)"
proof -
  from assms have "strip input_text = []" by (simp only: strip_Nil_iff)
  then show ?thesis by (simp add: perform_translation_def st_error_def)
qed

theorem blank_input_rejected_witness:
  "strip ''   '' = [] \<and> strip [] = []
   \<and> perform_translation (\<lambda>t f c. Inr ''Hola'') True ''   '' ''en'' ''es'' ''English'' ''Spanish''
        ''2024-01-01 10:00:00'' initial_state
      = initial_state\<lparr>messages := [Error ''Please enter some text to translate.'']\<rparr>
   \<and> perform_translation (\<lambda>t f c. Inr ''Hola'') True '''' ''en'' ''es'' ''English'' ''Spanish''
        ''2024-01-01 10:00:00'' initial_state
      = initial_state\<lparr>messages := [Error ''Please enter some text to translate.'']\<rparr>
   \<and> translate_calls (perform_translation (\<lambda>t f c. Inr ''Hola'') True ''   '' ''en'' ''es''
        ''English'' ''Spanish'' ''2024-01-01 10:00:00'' initial_state) = []"
proof -
  have h1: "\<forall>c\<in>set ''   ''. isspace c" by (simp add: isspace_def)
  have h2: "\<forall>c\<in>set ''''. isspace c" by simp
  from blank_input_rejected [OF h1] blank_input_rejected [OF h2] h1 h2 show ?thesis
    by (simp add: initial_state_def strip_Nil_iff)
qed

subsection \<open>The text handed to the library\<close>

text \<open>
  C8. When the input passes the guard of line 347 (its \<open>strip()\<close> is not empty), the
  outcome of the step is determined by the library's answer at the input text exactly
  as typed, leading and trailing whitespace included, and at the selected codes: its
  exception is the one reported, its result is the one recorded, next to the untrimmed
  input as \<open>original\<close>. This holds for every library function, so no other argument
  can have been passed; the logged call carries the same text.
\<close>

theorem exact_text_passed:
  assumes "strip input_text \<noteq> []"
  shows "perform_translation lib True input_text fc tc fn tn now s
     = (case lib input_text fc tc of
          Inl e \<Rightarrow>
            s\<lparr>messages := messages s @ [Error (''Translation error: '' @ message e)],
              translate_calls := translate_calls s @ [(input_text, fc, tc)]\<rparr>
        | Inr out \<Rightarrow>
            if out = [] then s\<lparr>translate_calls := translate_calls s @ [(input_text, fc, tc)]\<rparr>
            else add_to_history
                   \<lparr>timestamp = now, from_lang = fn, to_lang_name = tn,
                     original = input_text, translated = out\<rparr>
                   (s\<lparr>translate_calls := translate_calls s @ [(input_text, fc, tc)]\<rparr>))"
  using assms
  by (simp add: perform_translation_def translate_text_def st_error_def Let_def
           split: sum.splits)

theorem exact_text_passed_witness:
  "strip ''  Hello world  '' = ''Hello world''
   \<and> perform_translation echo_library True ''  Hello world  '' ''en'' ''es''
        ''English'' ''Spanish'' ''2024-01-01 10:00:00'' initial_state
     = \<lparr>installed_packages = [],
        translation_history =
          [\<lparr>timestamp = ''2024-01-01 10:00:00'', from_lang = ''English'',
            to_lang_name = ''Spanish'', original = ''  Hello world  '',
            translated = ''  Hello world  ''\<rparr>],
        messages = [],
        translate_calls = [(''  Hello world  '', ''en'', ''es'')]\<rparr>"
proof -
  have h: "strip ''  Hello world  '' = ''Hello world''"
    by (simp add: strip_def isspace_def)
  then have h': "strip ''  Hello world  '' \<noteq> []" by simp
  from exact_text_passed [OF h', where lib = echo_library] h show ?thesis
    by (simp add: initial_state_def echo_library_def add_to_history_def)
qed

subsection \<open>Failed translations\<close>

text \<open>
  C4. If the library's translate call raises for the given text and language pair, the
  translation step leaves the history exactly as it was (and the installed list too).
\<close>

theorem failed_translation_not_recorded:
  assumes "lib input_text fc tc = Inl e"
  shows "translation_history (perform_translation lib button input_text fc tc fn tn now s)
           = translation_history s
       \<and> installed_packages (perform_translation lib button input_text fc tc fn tn now s)
           = installed_packages s"
  using assms
  by (simp add: perform_translation_def translate_text_def st_error_def Let_def)

theorem failed_translation_not_recorded_witness:
  "failing_library ''Hello'' ''en'' ''es'' = Inl (Exception ''no model'')
   \<and> translation_history (perform_translation failing_library True ''Hello''
        ''en'' ''es'' ''English'' ''Spanish'' ''2024-01-01 10:00:00''
        (initial_state\<lparr>translation_history := [example_record ''01'']\<rparr>))
     = [example_record ''01'']"
proof -
  have h: "failing_library ''Hello'' ''en'' ''es'' = Inl (Exception ''no model'')"
    by (simp add: failing_library_def)
  from failed_translation_not_recorded
         [where lib = failing_library and input_text = "''Hello''" and fc = "''en''"
            and tc = "''es''", OF h] h
  show ?thesis by (simp add: initial_state_def)
qed

text \<open>
  C9. When the library's translate call raises, \<open>translate_text\<close> shows
  \<open>Translation error: \<close> followed by the exception's text and returns the empty string,
  the same value it returns when the library's result is the empty string; in both
  cases the translation step adds no record to the history.
\<close>

theorem failure_looks_like_empty_result:
  assumes "lib input_text fc tc = Inl e" and "lib' input_text fc tc = Inr []"
  shows "fst (translate_text lib input_text fc tc s) = []
       \<and> fst (translate_text lib' input_text fc tc s) = []
       \<and> messages (snd (translate_text lib input_text fc tc s))
           = messages s @ [Error (''Translation error: '' @ message e)]
       \<and> translation_history (perform_translation lib button input_text fc tc fn tn now s)
           = translation_history s
       \<and> translation_history (perform_translation lib' button input_text fc tc fn tn now s)
           = translation_history s"
  using assms
  by (simp add: perform_translation_def translate_text_def st_error_def Let_def)

theorem failure_looks_like_empty_result_witness:
  "failing_library ''Hello'' ''en'' ''es'' = Inl (Exception ''no model'')
   \<and> empty_library ''Hello'' ''en'' ''es'' = Inr []
   \<and> fst (translate_text failing_library ''Hello'' ''en'' ''es'' initial_state)
       = fst (translate_text empty_library ''Hello'' ''en'' ''es'' initial_state)
   \<and> translation_history (perform_translation failing_library True ''Hello'' ''en'' ''es''
        ''English'' ''Spanish'' ''2024-01-01 10:00:00'' initial_state) = []
   \<and> translation_history (perform_translation empty_library True ''Hello'' ''en'' ''es''
        ''English'' ''Spanish'' ''2024-01-01 10:00:00'' initial_state) = []"
proof -
  have h1: "failing_library ''Hello'' ''en'' ''es'' = Inl (Exception ''no model'')"
    by (simp add: failing_library_def)
  have h2: "empty_library ''Hello'' ''en'' ''es'' = Inr []"
    by (simp add: empty_library_def)
  from failure_looks_like_empty_result
         [where lib = failing_library and lib' = empty_library and input_text = "''Hello''"
            and fc = "''en''" and tc = "''es''", OF h1 h2] h1 h2
  show ?thesis by (simp add: initial_state_def)
qed

subsection \<open>The bounded history\<close>

text \<open>
  C3. After more than ten record operations (lines 356-367), from any starting history,
  the history has exactly ten entries: the ten records added last, the most recent
  first. \<open>rs\<close> lists the records in the order in which they were added.
\<close>

theorem history_keeps_latest_ten:
  assumes "10 < length rs"
  shows "length (translation_history (fold add_to_history rs s)) = 10
       \<and> translation_history (fold add_to_history rs s) = rev (drop (length rs - 10) rs)"
proof -
  from assms obtain r rs' where rs: "rs = r # rs'" by (cases rs) auto
  have "translation_history (fold add_to_history rs s)
      = take 10 (rev rs' @ r # translation_history s)"
    unfolding rs by (simp add: history_fold)
  also have "\<dots> = take 10 (rev rs @ translation_history s)" by (simp add: rs)
  also have "\<dots> = take 10 (rev rs)" using assms by simp
  also have "\<dots> = rev (drop (length rs - 10) rs)" by (rule take_rev)
  finally have e: "translation_history (fold add_to_history rs s) = rev (drop (length rs - 10) rs)" .
  moreover have "length (rev (drop (length rs - 10) rs)) = 10" using assms by simp
  ultimately show ?thesis by simp
qed

theorem history_keeps_latest_ten_witness:
  "10 < length (map example_record [''01'', ''02'', ''03'', ''04'', ''05'', ''06'', ''07'', ''08'', ''09'', ''10'', ''11''])
   \<and> translation_history (fold add_to_history
        (map example_record [''01'', ''02'', ''03'', ''04'', ''05'', ''06'', ''07'', ''08'', ''09'', ''10'', ''11''])
        initial_state)
     = map example_record [''11'', ''10'', ''09'', ''08'', ''07'', ''06'', ''05'', ''04'', ''03'', ''02'']"
proof -
  have h: "10 < length (map example_record [''01'', ''02'', ''03'', ''04'', ''05'', ''06'', ''07'', ''08'', ''09'', ''10'', ''11''])"
    by simp
  from history_keeps_latest_ten [OF h, of initial_state] h show ?thesis by simp
qed

subsection \<open>Source and target options\<close>

text \<open>
  C10. The source languages offered are the \<open>(from_code, from_name)\<close> pairs of the
  installed pairs, each once, in ascending order, however often and in whatever order
  the installed list holds them; the options shown are their formatted names.
\<close>

theorem from_languages_sorted_distinct:
  "sorted (from_languages available_pairs)
   \<and> distinct (from_languages available_pairs)
   \<and> set (from_languages available_pairs) = (\<lambda>(p0, p1, p2, p3). (p0, p1)) ` set available_pairs
   \<and> from_options available_pairs = map lang_option (from_languages available_pairs)"
  by (simp add: from_languages_def from_options_def)

text \<open>A list with a repeated pair and sources out of order.\<close>

lemma from_languages_example:
  "from_languages [(''fr'', ''French'', ''en'', ''English''), (''en'', ''English'', ''es'', ''Spanish''),
                   (''en'', ''English'', ''fr'', ''French''), (''fr'', ''French'', ''en'', ''English'')]
     = [(''en'', ''English''), (''fr'', ''French'')]"
  by (simp add: from_languages_def)

lemma set_to_languages:
  "set (to_languages ps c) = {(p2, p3) | p0 p1 p2 p3. (p0, p1, p2, p3) \<in> set ps \<and> p0 = c}"
proof -
  have "set (to_languages ps c)
      = (\<lambda>(p0, p1, p2, p3). (p2, p3)) ` {p \<in> set ps. case p of (p0, p1, p2, p3) \<Rightarrow> p0 = c}"
    by (simp only: to_languages_def set_sort set_map set_filter)
  also have "\<dots> = {(p2, p3) | p0 p1 p2 p3. (p0, p1, p2, p3) \<in> set ps \<and> p0 = c}"
  proof (intro set_eqI iffI)
    fix x
    assume "x \<in> (\<lambda>(p0, p1, p2, p3). (p2, p3)) ` {p \<in> set ps. case p of (p0, p1, p2, p3) \<Rightarrow> p0 = c}"
    then obtain p where p: "p \<in> set ps" "case p of (p0, p1, p2, p3) \<Rightarrow> p0 = c"
      "x = (case p of (p0, p1, p2, p3) \<Rightarrow> (p2, p3))"
      by blast
    obtain p0 p1 p2 p3 where "p = (p0, p1, p2, p3)" by (rule prod_cases4)
    with p have "(p0, p1, p2, p3) \<in> set ps" "p0 = c" "x = (p2, p3)" by simp_all
    then show "x \<in> {(p2, p3) | p0 p1 p2 p3. (p0, p1, p2, p3) \<in> set ps \<and> p0 = c}" by blast
  next
    fix x
    assume "x \<in> {(p2, p3) | p0 p1 p2 p3. (p0, p1, p2, p3) \<in> set ps \<and> p0 = c}"
    then obtain p0 p1 p2 p3 where q: "(p0, p1, p2, p3) \<in> set ps" "p0 = c" "x = (p2, p3)" by blast
    show "x \<in> (\<lambda>(p0, p1, p2, p3). (p2, p3)) ` {p \<in> set ps. case p of (p0, p1, p2, p3) \<Rightarrow> p0 = c}"
      using q by (intro image_eqI [of _ _ "(p0, p1, p2, p3)"]) simp_all
  qed
  finally show ?thesis .
qed

lemma set_to_languages_installed:
  "set (to_languages (map pair_of ps) c)
     = {(to_code p, to_name p) | p. p \<in> set ps \<and> from_code p = c}"
proof -
  have "set (to_languages (map pair_of ps) c)
      = (\<lambda>p. (to_code p, to_name p)) ` {p \<in> set ps. from_code p = c}"
    by (simp add: to_languages_def pair_of_def filter_map comp_def image_image)
  also have "\<dots> = {(to_code p, to_name p) | p. p \<in> set ps \<and> from_code p = c}"
    by blast
  finally show ?thesis .
qed

text \<open>
  C6. For every selected source code and every list of installed pairs, the target
  languages offered are exactly the targets of the pairs whose \<open>from_code\<close> is the
  selected source; the options shown are their formatted names. \<open>to_languages\<close> is a
  function of the current pairs and the current selection and is stored nowhere in
  the state, so it follows every change of either; with the pairs that
  \<open>get_available_language_pairs\<close> has just refreshed, it is the filter of the stored
  installed list.
\<close>

theorem to_languages_filter:
  "set (to_languages available_pairs selected_from_code)
     = {(p2, p3) | p0 p1 p2 p3. (p0, p1, p2, p3) \<in> set available_pairs \<and> p0 = selected_from_code}
   \<and> to_options available_pairs selected_from_code
       = map lang_option (to_languages available_pairs selected_from_code)
   \<and> set (to_languages (fst (get_available_language_pairs lib s)) selected_from_code)
       = {(to_code p, to_name p) | p.
            p \<in> set (installed_packages (snd (get_available_language_pairs lib s)))
            \<and> from_code p = selected_from_code}"
proof (intro conjI)
  show "set (to_languages available_pairs selected_from_code)
     = {(p2, p3) | p0 p1 p2 p3. (p0, p1, p2, p3) \<in> set available_pairs \<and> p0 = selected_from_code}"
    by (rule set_to_languages)
  show "to_options available_pairs selected_from_code
       = map lang_option (to_languages available_pairs selected_from_code)"
    by (simp add: to_options_def)
  show "set (to_languages (fst (get_available_language_pairs lib s)) selected_from_code)
       = {(to_code p, to_name p) | p.
            p \<in> set (installed_packages (snd (get_available_language_pairs lib s)))
            \<and> from_code p = selected_from_code}"
    by (simp only: get_available_language_pairs_def Let_def fst_conv snd_conv
          set_to_languages_installed)
qed

text \<open>
  C7. When no installed pair has the selected source, target selection does not yield
  a target: main shows the error of line 319,
  \<open>No target languages available for the selected source language.\<close>, and returns.
\<close>

theorem no_targets_is_an_error:
  assumes "filter (\<lambda>(p0, p1, p2, p3). p0 = selected_from_code) available_pairs = []"
  shows "target_selection available_pairs selected_from_code selected_to_idx s
           = Inr (None, s\<lparr>messages := messages s @
                [Error ''No target languages available for the selected source language.'']\<rparr>)"
  using assms
  by (simp add: target_selection_def to_options_def to_languages_def st_error_def)

theorem no_targets_is_an_error_witness:
  "filter (\<lambda>(p0, p1, p2, p3). p0 = ''fr'') [(''en'', ''English'', ''es'', ''Spanish'')] = []
   \<and> target_selection [(''en'', ''English'', ''es'', ''Spanish'')] ''fr'' 0 initial_state
       = Inr (None, initial_state\<lparr>messages :=
            [Error ''No target languages available for the selected source language.'']\<rparr>)
   \<and> target_selection [(''en'', ''English'', ''es'', ''Spanish'')] ''en'' 0 initial_state
       = Inr (Some ''es'', initial_state)"
proof -
  have h: "filter (\<lambda>(p0, p1, p2, p3). p0 = ''fr'') [(''en'', ''English'', ''es'', ''Spanish'')] = []"
    by simp
  from no_targets_is_an_error [OF h] h show ?thesis
    by (simp add: initial_state_def target_selection_def to_options_def to_languages_def)
qed

end
